theory Spec2Isabelle
  imports Complex_Main
begin

section \<open>Embedding of \<open>backend/src/app.py\<close>\<close>

text \<open>
  The noise generator of \<open>app.py\<close> is embedded function by function. Python integers
  are \<open>int\<close>. Python floats are read as real numbers: rounding is not modelled, but the
  places where a float operation overflows are, because there the code raises instead
  of returning. The module-level generator of
  Python's \<open>random\<close> is the only mutable state the code touches: it is threaded
  explicitly through every function that reaches \<open>gradient\<close>. Exceptions are values of
  the type \<open>error\<close>; a computation returns its result (or the exception) together with the
  generator state it leaves behind.
\<close>

subsection \<open>Exceptions and the \<open>random\<close> module\<close>

datatype error = ValueError | ZeroDivisionError | IndexError | OverflowError

text \<open>
  The standard library's generator is not part of the repository. It is a parameter of
  the model: \<open>seed_fn a\<close> is the generator state that \<open>random.seed(a)\<close> installs, and
  \<open>randint_fn g a b\<close> is the value drawn by \<open>random.randint(a, b)\<close> in state \<open>g\<close>
  together with the state after the draw.
\<close>

record 'g random_module =
  seed_fn :: "int \<Rightarrow> 'g"
  randint_fn :: "'g \<Rightarrow> int \<Rightarrow> int \<Rightarrow> int \<times> 'g"

text \<open>The documented contract of \<open>random.randint\<close>: the draw lies in \<open>[a, b]\<close>.\<close>

definition randint_in_range :: "'g random_module \<Rightarrow> bool" where
  "randint_in_range R \<longleftrightarrow>
     (\<forall>g a b. a \<le> b \<longrightarrow> a \<le> fst (randint_fn R g a b) \<and> fst (randint_fn R g a b) \<le> b)"

type_synonym ('g, 'a) comp = "'g \<Rightarrow> (error + 'a) \<times> 'g"

definition returnM :: "'a \<Rightarrow> ('g, 'a) comp" where
  "returnM a g = (Inr a, g)"

definition raiseM :: "error \<Rightarrow> ('g, 'a) comp" where
  "raiseM e g = (Inl e, g)"

definition bindM :: "('g, 'a) comp \<Rightarrow> ('a \<Rightarrow> ('g, 'b) comp) \<Rightarrow> ('g, 'b) comp" where
  "bindM m f g = (case m g of (Inl e, g') \<Rightarrow> (Inl e, g') | (Inr a, g') \<Rightarrow> f a g')"

text \<open>
  A Python \<open>for\<close> loop over a list of indices: the body receives the index and the
  variables the loop updates, and an exception raised by the body ends the loop.
\<close>

fun for_loop :: "'i list \<Rightarrow> ('i \<Rightarrow> 's \<Rightarrow> ('g, 's) comp) \<Rightarrow> 's \<Rightarrow> ('g, 's) comp" where
  "for_loop [] body s g = (Inr s, g)"
| "for_loop (i # rest) body s g =
     (case body i s g of
        (Inl e, g') \<Rightarrow> (Inl e, g')
      | (Inr s', g') \<Rightarrow> for_loop rest body s' g')"

text \<open>\<open>range(n)\<close>: empty when \<open>n \<le> 0\<close>.\<close>

definition range_py :: "int \<Rightarrow> nat list" where
  "range_py n = [0..<nat n]"

text \<open>
  Subscripting a list with an integer: an index from \<open>-len\<close> up to \<open>-1\<close> is taken
  from the end, and anything outside \<open>[-len, len)\<close> raises \<open>IndexError\<close>.
\<close>

definition py_index :: "'a list \<Rightarrow> int \<Rightarrow> error + 'a" where
  "py_index xs i =
     (if 0 \<le> i \<and> i < int (length xs) then Inr (xs ! nat i)
      else if i < 0 \<and> - int (length xs) \<le> i then Inr (xs ! nat (int (length xs) + i))
      else Inl IndexError)"

subsection \<open>Float operations that overflow\<close>

text \<open>
  A real number whose magnitude reaches \<open>2 ^ 1024 - 2 ^ 970\<close> rounds to an infinity in
  double precision. The parameters themselves are finite floats.
\<close>

definition float_overflows :: "real \<Rightarrow> bool" where
  "float_overflows v \<longleftrightarrow> 2 ^ 1024 - 2 ^ 970 \<le> \<bar>v\<bar>"

text \<open>\<open>b ** n\<close> on a float \<open>b\<close> and an integer \<open>n \<ge> 0\<close> raises when the result overflows.\<close>

definition float_pow :: "real \<Rightarrow> nat \<Rightarrow> error + real" where
  "float_pow b n = (if float_overflows (b ^ n) then Inl OverflowError else Inr (b ^ n))"

text \<open>
  Division and multiplication of floats do not raise on overflow: they yield an infinity,
  and an infinity times zero is not a number. A sample coordinate is therefore a finite
  value, an infinity (its sign plays no part below) or a NaN. \<open>float_div\<close> is the
  quotient by a non-zero divisor.
\<close>

datatype pyfloat = Finite real | Infinity | NaN

definition float_div :: "real \<Rightarrow> real \<Rightarrow> pyfloat" where
  "float_div a b = (if float_overflows (a / b) then Infinity else Finite (a / b))"

fun float_mul :: "pyfloat \<Rightarrow> real \<Rightarrow> pyfloat" where
  "float_mul (Finite a) b = (if float_overflows (a * b) then Infinity else Finite (a * b))"
| "float_mul Infinity b = (if b = 0 then NaN else Infinity)"
| "float_mul NaN b = NaN"

subsection \<open>Helper functions\<close>

definition lerp :: "real \<Rightarrow> real \<Rightarrow> real \<Rightarrow> real" where
  "lerp a b x = a + x * (b - a)"

definition fade :: "real \<Rightarrow> real" where
  "fade t = t * t * t * (t * (t * 6 - 15) + 10)"

definition gradients :: "(int \<times> int) list" where
  "gradients = [(1, 0), (-1, 0), (0, 1), (0, -1), (1, 1), (1, -1), (-1, 1), (-1, -1)]"

text \<open>
  \<open>gradient\<close> re-seeds the module-level generator, so the state it was called in is
  overwritten; the state it returns is the one left by the draw.
\<close>

definition gradient ::
  "'g random_module \<Rightarrow> int \<Rightarrow> int \<Rightarrow> real \<Rightarrow> real \<Rightarrow> int \<Rightarrow> ('g, real) comp" where
  "gradient R ix iy x y random_seed g =
     (let g1 = seed_fn R (random_seed + ix * 100000 + iy * 1000);
          (r, g2) = randint_fn R g1 0 (int (length gradients) - 1)
      in case py_index gradients r of
           Inl e \<Rightarrow> (Inl e, g2)
         | Inr grad_vec \<Rightarrow>
             (let dx = x - real_of_int ix;
                  dy = y - real_of_int iy
              in (Inr (real_of_int (fst grad_vec) * dx + real_of_int (snd grad_vec) * dy), g2)))"

subsection \<open>\<open>generate_perlin_noise\<close>\<close>

text \<open>
  \<open>np.zeros((height, width))\<close> rejects a negative dimension, and an array whose size in
  bytes does not fit a signed 64-bit integer (eight bytes per cell; numpy leaves
  dimensions of length zero out of that product). Both are a \<open>ValueError\<close>. Below that
  limit the allocation is taken to succeed: the memory of the machine is not modelled.
\<close>

definition array_too_big :: "int \<Rightarrow> int \<Rightarrow> bool" where
  "array_too_big height width \<longleftrightarrow>
     2 ^ 63 \<le> 8 * (if height = 0 then 1 else height) * (if width = 0 then 1 else width)"

definition np_zeros :: "int \<Rightarrow> int \<Rightarrow> error + real list list" where
  "np_zeros height width =
     (if height < 0 \<or> width < 0 \<or> array_too_big height width then Inl ValueError
      else Inr (replicate (nat height) (replicate (nat width) 0)))"

text \<open>
  Lines 71 to 76: the table of \<open>(frequency, amplitude)\<close> pairs, one loop iteration per
  octave. Either power may overflow and raise. (The source also sums the amplitudes
  into \<open>max_amplitude\<close>, which it never reads.)
\<close>

definition config_body ::
  "real \<Rightarrow> real \<Rightarrow> nat \<Rightarrow> (real \<times> real) list \<Rightarrow> ('g, (real \<times> real) list) comp" where
  "config_body persistence lacunarity octave config =
     (case float_pow lacunarity octave of
        Inl e \<Rightarrow> raiseM e
      | Inr frequency \<Rightarrow>
          (case float_pow persistence octave of
             Inl e \<Rightarrow> raiseM e
           | Inr amplitude \<Rightarrow> returnM (config @ [(frequency, amplitude)])))"

definition amplitudes_config :: "int \<Rightarrow> real \<Rightarrow> real \<Rightarrow> ('g, (real \<times> real) list) comp" where
  "amplitudes_config octaves persistence lacunarity =
     for_loop (range_py octaves) (config_body persistence lacunarity) []"

text \<open>
  Lines 90 to 112, up to the multiplication by the amplitude: the value of one octave at
  the sample point \<open>(sample_x, sample_y)\<close>. \<open>math.floor\<close> raises \<open>OverflowError\<close> on an
  infinity and \<open>ValueError\<close> on a NaN; \<open>sample_x\<close> is floored first (line 91), then
  \<open>sample_y\<close> (line 93), and no gradient is evaluated before both floors succeed.
\<close>

fun octave_value :: "'g random_module \<Rightarrow> pyfloat \<Rightarrow> pyfloat \<Rightarrow> int \<Rightarrow> ('g, real) comp" where
  "octave_value R (Finite sample_x) (Finite sample_y) seed =
     (let x0 = \<lfloor>sample_x\<rfloor>;
          x1 = x0 + 1;
          y0 = \<lfloor>sample_y\<rfloor>;
          y1 = y0 + 1;
          sx = fade (sample_x - real_of_int x0);
          sy = fade (sample_y - real_of_int y0)
      in bindM (gradient R x0 y0 sample_x sample_y seed) (\<lambda>n0.
         bindM (gradient R x1 y0 sample_x sample_y seed) (\<lambda>n1.
         bindM (gradient R x0 y1 sample_x sample_y seed) (\<lambda>n2.
         bindM (gradient R x1 y1 sample_x sample_y seed) (\<lambda>n3.
           (let ix0 = lerp n0 n1 sx;
                ix1 = lerp n2 n3 sx
            in returnM (lerp ix0 ix1 sy)))))))"
| "octave_value R Infinity sample_y seed = raiseM OverflowError"
| "octave_value R NaN sample_y seed = raiseM ValueError"
| "octave_value R (Finite sample_x) Infinity seed = raiseM OverflowError"
| "octave_value R (Finite sample_x) NaN seed = raiseM ValueError"

text \<open>
  The body of the loop over octaves, for the pixel \<open>(x, y)\<close>: it adds the octave's
  contribution to \<open>noise_value\<close>. Dividing by a zero \<open>scale\<close> raises; the quotient and
  the product with the frequency may overflow without raising.
\<close>

definition octave_body ::
  "'g random_module \<Rightarrow> (real \<times> real) list \<Rightarrow> real \<Rightarrow> int \<Rightarrow> nat \<Rightarrow> nat \<Rightarrow>
     nat \<Rightarrow> real \<Rightarrow> ('g, real) comp" where
  "octave_body R config scale seed x y i noise_value =
     (case py_index config (int i) of
        Inl e \<Rightarrow> raiseM e
      | Inr (frequency, amplitude) \<Rightarrow>
          if scale = 0 then raiseM ZeroDivisionError
          else
            (let sample_x = float_mul (float_div (real x) scale) frequency;
                 sample_y = float_mul (float_div (real y) scale) frequency
             in bindM (octave_value R sample_x sample_y seed)
                  (\<lambda>v. returnM (noise_value + v * amplitude))))"

text \<open>The body of the loop over \<open>x\<close>: one pixel, stored at \<open>noise_map[y][x]\<close>.\<close>

definition pixel_body ::
  "'g random_module \<Rightarrow> (real \<times> real) list \<Rightarrow> int \<Rightarrow> real \<Rightarrow> int \<Rightarrow> nat \<Rightarrow>
     nat \<Rightarrow> real list list \<Rightarrow> ('g, real list list) comp" where
  "pixel_body R config octaves scale seed y x noise_map =
     bindM (for_loop (range_py octaves) (octave_body R config scale seed x y) 0)
       (\<lambda>noise_value. returnM (noise_map[y := (noise_map ! y)[x := noise_value]]))"

text \<open>
  Lines 67 to 115: the field before normalisation. The array is allocated first, then
  the table is built, then the pixels are filled.
\<close>

definition raw_noise_map ::
  "'g random_module \<Rightarrow> int \<Rightarrow> int \<Rightarrow> int \<Rightarrow> real \<Rightarrow> real \<Rightarrow> real \<Rightarrow> int \<Rightarrow>
     ('g, real list list) comp" where
  "raw_noise_map R width height octaves persistence lacunarity scale seed =
     (case np_zeros height width of
        Inl e \<Rightarrow> raiseM e
      | Inr noise_map \<Rightarrow>
          bindM (amplitudes_config octaves persistence lacunarity) (\<lambda>config.
            for_loop (range_py height)
              (\<lambda>y. for_loop (range_py width) (pixel_body R config octaves scale seed y))
              noise_map))"

text \<open>\<open>np.min\<close> and \<open>np.max\<close> over all cells; both reject an array with no cell.\<close>

definition np_min :: "real list list \<Rightarrow> error + real" where
  "np_min a = (case concat a of [] \<Rightarrow> Inl ValueError | v # vs \<Rightarrow> Inr (fold min vs v))"

definition np_max :: "real list list \<Rightarrow> error + real" where
  "np_max a = (case concat a of [] \<Rightarrow> Inl ValueError | v # vs \<Rightarrow> Inr (fold max vs v))"

text \<open>Lines 117 to 127: the normalisation pass.\<close>

definition normalize_noise_map :: "real list list \<Rightarrow> error + real list list" where
  "normalize_noise_map noise_map =
     (case np_min noise_map of
        Inl e \<Rightarrow> Inl e
      | Inr min_val \<Rightarrow>
          (case np_max noise_map of
             Inl e \<Rightarrow> Inl e
           | Inr max_val \<Rightarrow>
               if max_val - min_val > 0
               then Inr (map (map (\<lambda>v. (v - min_val) / (max_val - min_val))) noise_map)
               else Inr (map (map (\<lambda>v. 0.5)) noise_map)))"

definition generate_perlin_noise ::
  "'g random_module \<Rightarrow> int \<Rightarrow> int \<Rightarrow> int \<Rightarrow> real \<Rightarrow> real \<Rightarrow> real \<Rightarrow> int \<Rightarrow>
     ('g, real list list) comp" where
  "generate_perlin_noise R width height octaves persistence lacunarity scale seed =
     bindM (raw_noise_map R width height octaves persistence lacunarity scale seed)
       (\<lambda>noise_map g. (normalize_noise_map noise_map, g))"

subsection \<open>\<open>generate_world\<close>\<close>

text \<open>The threshold chain of lines 159 to 164.\<close>

definition classify :: "real \<Rightarrow> int" where
  "classify noise_val = (if noise_val < 0.4 then 0 else if noise_val < 0.7 then 1 else 2)"

definition terrain_tiles :: "real list list \<Rightarrow> int list list" where
  "terrain_tiles noise_map = map (map classify) noise_map"

text \<open>
  Noise generation followed by classification, for any generation parameters. The
  route handler \<open>generate_world\<close> is this pipeline at the fixed parameters of line 149;
  its closing \<open>print\<close> reads \<open>terrain_tiles[0]\<close>.
\<close>

definition pipeline ::
  "'g random_module \<Rightarrow> int \<Rightarrow> int \<Rightarrow> int \<Rightarrow> real \<Rightarrow> real \<Rightarrow> real \<Rightarrow> int \<Rightarrow>
     ('g, int list list) comp" where
  "pipeline R width height octaves persistence lacunarity scale seed =
     bindM (generate_perlin_noise R width height octaves persistence lacunarity scale seed)
       (\<lambda>noise_map. returnM (terrain_tiles noise_map))"

definition generate_world :: "'g random_module \<Rightarrow> int \<Rightarrow> int \<Rightarrow> ('g, int \<times> int list list) comp" where
  "generate_world R seed size_arg =
     bindM (pipeline R size_arg size_arg 4 0.01 2.0 30.0 seed)
       (\<lambda>tiles. case py_index tiles 0 of
                   Inl e \<Rightarrow> raiseM e
                 | Inr row \<Rightarrow> returnM (size_arg, tiles))"

subsection \<open>The reference definitions of the specification\<close>

text \<open>
  The specification's own reading of the raw field, as pure functions: the gradient
  influence of a cell, the fade polynomial, linear interpolation, the value of one
  octave and the sum over the octaves.
\<close>

definition gradientInfluence ::
  "'g random_module \<Rightarrow> int \<Rightarrow> int \<Rightarrow> real \<Rightarrow> real \<Rightarrow> int \<Rightarrow> real" where
  "gradientInfluence R cellX cellY sampleX sampleY seed =
     (let localSeed = seed + cellX * 100000 + cellY * 1000;
          k = fst (randint_fn R (seed_fn R localSeed) 0 7);
          v = gradients ! nat k
      in real_of_int (fst v) * (sampleX - real_of_int cellX) +
         real_of_int (snd v) * (sampleY - real_of_int cellY))"

definition fade_spec :: "real \<Rightarrow> real" where
  "fade_spec t = 6 * t ^ 5 - 15 * t ^ 4 + 10 * t ^ 3"

definition lerp_spec :: "real \<Rightarrow> real \<Rightarrow> real \<Rightarrow> real" where
  "lerp_spec a b t = a + t * (b - a)"

definition octaveValue :: "'g random_module \<Rightarrow> real \<Rightarrow> real \<Rightarrow> int \<Rightarrow> real" where
  "octaveValue R sampleX sampleY seed =
     (let x0 = \<lfloor>sampleX\<rfloor>;
          x1 = x0 + 1;
          y0 = \<lfloor>sampleY\<rfloor>;
          y1 = y0 + 1;
          sx = fade_spec (sampleX - real_of_int x0);
          sy = fade_spec (sampleY - real_of_int y0)
      in lerp_spec
           (lerp_spec (gradientInfluence R x0 y0 sampleX sampleY seed)
              (gradientInfluence R x1 y0 sampleX sampleY seed) sx)
           (lerp_spec (gradientInfluence R x0 y1 sampleX sampleY seed)
              (gradientInfluence R x1 y1 sampleX sampleY seed) sx)
           sy)"

definition raw_value_spec ::
  "'g random_module \<Rightarrow> int \<Rightarrow> real \<Rightarrow> real \<Rightarrow> real \<Rightarrow> int \<Rightarrow> nat \<Rightarrow> nat \<Rightarrow> real" where
  "raw_value_spec R octaves persistence lacunarity scale seed x y =
     (\<Sum>i = 0..<nat octaves.
        persistence ^ i *
        octaveValue R (real x / scale * lacunarity ^ i) (real y / scale * lacunarity ^ i) seed)"

subsection \<open>A generator to evaluate the model with\<close>

text \<open>
  A small linear congruential generator standing in for the library's generator where
  the model is evaluated on concrete inputs. It honours the contract of \<open>randint\<close>.
\<close>

definition lcg :: "int random_module" where
  "lcg = \<lparr>seed_fn = (\<lambda>a. \<bar>a\<bar>),
           randint_fn = (\<lambda>g a b.
             (let g' = (g * 1103515245 + 12345) mod 2147483648
              in (a + (g' div 65536) mod (b - a + 1), g')))\<rparr>"

subsection \<open>Predicates on computations\<close>

text \<open>
  A computation is oblivious of the generator state when its outcome is the same in every
  state it is started in; it returns \<open>v\<close> when it ends with the value \<open>v\<close> in every state.
\<close>

definition state_oblivious :: "('g, 'a) comp \<Rightarrow> bool" where
  "state_oblivious m \<longleftrightarrow> (\<forall>g1 g2. fst (m g1) = fst (m g2))"

definition returns :: "('g, 'a) comp \<Rightarrow> 'a \<Rightarrow> bool" where
  "returns m v \<longleftrightarrow> (\<forall>g. fst (m g) = Inr v)"

subsection \<open>The double range\<close>

text \<open>
  \<open>config_table\<close> is the table the code builds when no power overflows;
  \<open>table_overflows\<close> says that some power of the table does, and \<open>samples_overflow\<close>
  that some sample coordinate of the grid does (at the quotient by the scale or at the
  product with a frequency).
\<close>

definition config_table :: "int \<Rightarrow> real \<Rightarrow> real \<Rightarrow> (real \<times> real) list" where
  "config_table octaves persistence lacunarity =
     map (\<lambda>octave. (lacunarity ^ octave, persistence ^ octave)) (range_py octaves)"

definition table_overflows :: "int \<Rightarrow> real \<Rightarrow> real \<Rightarrow> bool" where
  "table_overflows octaves persistence lacunarity \<longleftrightarrow>
     (\<exists>i \<in> set (range_py octaves).
        float_overflows (lacunarity ^ i) \<or> float_overflows (persistence ^ i))"

definition sample_overflows :: "nat \<Rightarrow> real \<Rightarrow> real \<Rightarrow> bool" where
  "sample_overflows c scale frequency \<longleftrightarrow>
     float_overflows (real c / scale) \<or> float_overflows (real c / scale * frequency)"

definition samples_overflow :: "int \<Rightarrow> int \<Rightarrow> int \<Rightarrow> real \<Rightarrow> real \<Rightarrow> bool" where
  "samples_overflow width height octaves lacunarity scale \<longleftrightarrow>
     (\<exists>i \<in> set (range_py octaves). \<exists>c \<in> set (range_py width) \<union> set (range_py height).
        sample_overflows c scale (lacunarity ^ i))"

section \<open>Properties\<close>

subsection \<open>Independence of the generator state\<close>

lemma state_oblivious_returnM: "state_oblivious (returnM a)"
  by (simp add: state_oblivious_def returnM_def)

lemma state_oblivious_raiseM: "state_oblivious (raiseM e)"
  by (simp add: state_oblivious_def raiseM_def)

lemma state_oblivious_bindM:
  assumes "state_oblivious m" and "\<And>a. state_oblivious (f a)"
  shows "state_oblivious (bindM m f)"
  unfolding state_oblivious_def
proof (intro allI)
  fix g1 g2
  from assms(1) have eq: "fst (m g1) = fst (m g2)"
    by (simp add: state_oblivious_def)
  show "fst (bindM m f g1) = fst (bindM m f g2)"
  proof (cases "fst (m g1)")
    case (Inl e)
    with eq show ?thesis
      by (cases "m g1"; cases "m g2") (simp add: bindM_def)
  next
    case (Inr a)
    from assms(2) [of a] have "fst (f a (snd (m g1))) = fst (f a (snd (m g2)))"
      by (simp add: state_oblivious_def)
    with Inr eq show ?thesis
      by (cases "m g1"; cases "m g2") (auto simp add: bindM_def)
  qed
qed

lemma state_oblivious_for_loop:
  assumes "\<And>i s. state_oblivious (body i s)"
  shows "state_oblivious (for_loop idxs body s)"
proof (induction idxs arbitrary: s)
  case Nil
  show ?case by (simp add: state_oblivious_def)
next
  case (Cons i rest)
  have "for_loop (i # rest) body s = bindM (body i s) (for_loop rest body)"
    by (rule ext) (simp add: bindM_def split: prod.splits sum.splits)
  then show ?case
    using assms Cons.IH by (simp add: state_oblivious_bindM)
qed

lemma state_oblivious_gradient: "state_oblivious (gradient R ix iy x y random_seed)"
  by (simp add: state_oblivious_def gradient_def)

lemma state_oblivious_octave_value:
  "state_oblivious (octave_value R sample_x sample_y seed)"
proof (cases sample_x; cases sample_y)
  fix a b
  assume finite: "sample_x = Finite a" "sample_y = Finite b"
  show ?thesis
    unfolding finite octave_value.simps Let_def
    by (intro state_oblivious_bindM state_oblivious_gradient state_oblivious_returnM)
qed (simp_all add: state_oblivious_raiseM)

lemma state_oblivious_config_body:
  "state_oblivious (config_body persistence lacunarity octave config)"
  unfolding config_body_def
  by (auto split: sum.split intro!: state_oblivious_returnM state_oblivious_raiseM)

lemma state_oblivious_amplitudes_config:
  "state_oblivious (amplitudes_config octaves persistence lacunarity)"
  unfolding amplitudes_config_def
  by (intro state_oblivious_for_loop state_oblivious_config_body)

lemma state_oblivious_octave_body:
  "state_oblivious (octave_body R config scale seed x y i noise_value)"
  unfolding octave_body_def Let_def
  by (auto split: sum.split prod.split
      intro!: state_oblivious_bindM state_oblivious_octave_value state_oblivious_returnM
        state_oblivious_raiseM)

lemma state_oblivious_pixel_body:
  "state_oblivious (pixel_body R config octaves scale seed y x noise_map)"
  unfolding pixel_body_def
  by (intro state_oblivious_bindM state_oblivious_for_loop state_oblivious_octave_body
      state_oblivious_returnM)

lemma state_oblivious_raw_noise_map:
  "state_oblivious (raw_noise_map R width height octaves persistence lacunarity scale seed)"
  unfolding raw_noise_map_def
  by (auto split: sum.split
      intro!: state_oblivious_bindM state_oblivious_amplitudes_config
        state_oblivious_for_loop state_oblivious_pixel_body state_oblivious_raiseM)

lemma state_oblivious_generate_perlin_noise:
  "state_oblivious
     (generate_perlin_noise R width height octaves persistence lacunarity scale seed)"
  unfolding generate_perlin_noise_def
  by (intro state_oblivious_bindM state_oblivious_raw_noise_map)
    (simp add: state_oblivious_def)

lemma state_oblivious_pipeline:
  "state_oblivious (pipeline R width height octaves persistence lacunarity scale seed)"
  unfolding pipeline_def
  by (intro state_oblivious_bindM state_oblivious_generate_perlin_noise
      state_oblivious_returnM)


subsection \<open>Computations that return a value\<close>

lemma returns_returnM: "returns (returnM a) a"
  by (simp add: returns_def returnM_def)

lemma returns_bindM:
  assumes "returns m a" and "returns (f a) b"
  shows "returns (bindM m f) b"
  unfolding returns_def
proof
  fix g
  from assms(1) have "fst (m g) = Inr a" by (simp add: returns_def)
  then obtain g' where "m g = (Inr a, g')" by (cases "m g") simp
  with assms(2) show "fst (bindM m f g) = Inr b"
    by (simp add: bindM_def returns_def)
qed

lemma returns_for_loop:
  assumes "\<And>i s. i \<in> set idxs \<Longrightarrow> returns (body i s) (upd i s)"
  shows "returns (for_loop idxs body s) (fold upd idxs s)"
  using assms
proof (induction idxs arbitrary: s)
  case Nil
  show ?case by (simp add: returns_def)
next
  case (Cons i rest)
  have "for_loop (i # rest) body s = bindM (body i s) (for_loop rest body)"
    by (rule ext) (simp add: bindM_def split: prod.splits sum.splits)
  moreover have "returns (body i s) (upd i s)"
    using Cons.prems by simp
  moreover have "returns (for_loop rest body (upd i s)) (fold upd rest (upd i s))"
    using Cons.IH Cons.prems by simp
  ultimately show ?case
    by (simp add: returns_bindM)
qed

lemma py_index_in_range:
  "0 \<le> i \<Longrightarrow> i < int (length xs) \<Longrightarrow> py_index xs i = Inr (xs ! nat i)"
  by (simp add: py_index_def)

lemma length_gradients: "length gradients = 8"
  by (simp add: gradients_def)

lemma gradient_in_range:
  assumes "randint_in_range R"
  shows "gradient R ix iy x y random_seed g =
    (Inr (gradientInfluence R ix iy x y random_seed),
     snd (randint_fn R (seed_fn R (random_seed + ix * 100000 + iy * 1000)) 0 7))"
proof -
  define d where "d = randint_fn R (seed_fn R (random_seed + ix * 100000 + iy * 1000)) 0 7"
  from assms have "0 \<le> fst d \<and> fst d \<le> 7"
    unfolding randint_in_range_def d_def by simp
  then have "py_index gradients (fst d) = Inr (gradients ! nat (fst d))"
    by (simp add: py_index_in_range length_gradients)
  then show ?thesis
    by (cases d)
      (simp add: gradient_def gradientInfluence_def length_gradients d_def [symmetric] Let_def)
qed

lemma returns_gradient:
  "randint_in_range R \<Longrightarrow>
   returns (gradient R ix iy x y random_seed) (gradientInfluence R ix iy x y random_seed)"
  by (simp add: returns_def gradient_in_range)

lemma fade_eq_spec: "fade t = fade_spec t"
  by (simp add: fade_def fade_spec_def power_numeral_reduce algebra_simps)

lemma returns_octave_value:
  assumes "randint_in_range R"
  shows "returns (octave_value R (Finite sample_x) (Finite sample_y) seed)
    (octaveValue R sample_x sample_y seed)"
  unfolding octave_value.simps octaveValue_def Let_def
  by (intro returns_bindM [OF returns_gradient [OF assms]])
    (simp add: returns_returnM lerp_def lerp_spec_def fade_eq_spec)

lemma sample_finite:
  assumes "\<not> sample_overflows c scale frequency"
  shows "float_mul (float_div (real c) scale) frequency = Finite (real c / scale * frequency)"
  using assms by (simp add: sample_overflows_def float_div_def)

lemma config_loop:
  "for_loop idxs (config_body persistence lacunarity) config g =
    (if \<exists>i \<in> set idxs. float_overflows (lacunarity ^ i) \<or> float_overflows (persistence ^ i)
     then Inl OverflowError
     else Inr (config @ map (\<lambda>octave. (lacunarity ^ octave, persistence ^ octave)) idxs), g)"
  by (induction idxs arbitrary: config)
    (auto simp add: config_body_def float_pow_def raiseM_def returnM_def)

lemma amplitudes_config_result:
  "amplitudes_config octaves persistence lacunarity g =
    (if table_overflows octaves persistence lacunarity then Inl OverflowError
     else Inr (config_table octaves persistence lacunarity), g)"
  by (simp add: amplitudes_config_def config_loop table_overflows_def config_table_def)

lemma returns_amplitudes_config:
  "\<not> table_overflows octaves persistence lacunarity \<Longrightarrow>
   returns (amplitudes_config octaves persistence lacunarity)
     (config_table octaves persistence lacunarity)"
  by (simp add: returns_def amplitudes_config_result)

lemma py_index_config_table:
  assumes "i < nat octaves"
  shows "py_index (config_table octaves persistence lacunarity) (int i) =
    Inr (lacunarity ^ i, persistence ^ i)"
proof -
  from assms have "int i < octaves" by linarith
  then have "py_index (config_table octaves persistence lacunarity) (int i) =
    Inr (config_table octaves persistence lacunarity ! nat (int i))"
    by (intro py_index_in_range) (simp_all add: config_table_def range_py_def)
  with assms show ?thesis
    by (simp add: config_table_def range_py_def)
qed

lemma returns_octave_body:
  assumes "randint_in_range R" and "scale \<noteq> 0" and "i < nat octaves"
    and "\<not> sample_overflows x scale (lacunarity ^ i)"
    and "\<not> sample_overflows y scale (lacunarity ^ i)"
  shows "returns
    (octave_body R (config_table octaves persistence lacunarity) scale seed x y i noise_value)
    (noise_value +
       persistence ^ i *
       octaveValue R (real x / scale * lacunarity ^ i) (real y / scale * lacunarity ^ i) seed)"
  unfolding octave_body_def Let_def
  using assms(2)
  by (simp add: py_index_config_table [OF assms(3)] sample_finite [OF assms(4)]
      sample_finite [OF assms(5)] del: octave_value.simps)
    (rule returns_bindM [OF returns_octave_value [OF assms(1)]],
      simp add: returns_returnM mult.commute)

lemma fold_add_sum_list:
  "fold (\<lambda>i (s::real). s + t i) idxs s = s + sum_list (map t idxs)"
  by (induction idxs arbitrary: s) simp_all

lemma returns_octave_loop:
  assumes "randint_in_range R" and "scale \<noteq> 0"
    and "\<And>i. i < nat octaves \<Longrightarrow> \<not> sample_overflows x scale (lacunarity ^ i)"
    and "\<And>i. i < nat octaves \<Longrightarrow> \<not> sample_overflows y scale (lacunarity ^ i)"
  shows "returns
    (for_loop (range_py octaves)
       (octave_body R (config_table octaves persistence lacunarity) scale seed x y) 0)
    (raw_value_spec R octaves persistence lacunarity scale seed x y)"
proof -
  let ?t = "\<lambda>i. persistence ^ i *
    octaveValue R (real x / scale * lacunarity ^ i) (real y / scale * lacunarity ^ i) seed"
  have "returns
    (for_loop (range_py octaves)
       (octave_body R (config_table octaves persistence lacunarity) scale seed x y) 0)
    (fold (\<lambda>i s. s + ?t i) (range_py octaves) 0)"
  proof (rule returns_for_loop)
    fix i s
    assume "i \<in> set (range_py octaves)"
    then have i: "i < nat octaves" by (simp add: range_py_def)
    show "returns
      (octave_body R (config_table octaves persistence lacunarity) scale seed x y i s)
      (s + ?t i)"
      by (rule returns_octave_body [OF assms(1,2) i assms(3) [OF i] assms(4) [OF i]])
  qed
  moreover have "fold (\<lambda>i s. s + ?t i) (range_py octaves) 0 =
    raw_value_spec R octaves persistence lacunarity scale seed x y"
    by (simp add: fold_add_sum_list range_py_def raw_value_spec_def
        interv_sum_list_conv_sum_set_nat)
  ultimately show ?thesis by simp
qed

subsection \<open>Filling the noise map\<close>

lemma fold_update_upt:
  "k \<le> length xs \<Longrightarrow>
   fold (\<lambda>i ys. ys[i := G i (ys ! i)]) [0..<k] xs = map (\<lambda>i. G i (xs ! i)) [0..<k] @ drop k xs"
proof (induction k)
  case 0
  show ?case by simp
next
  case (Suc k)
  then have k: "k < length xs" by simp
  let ?pre = "map (\<lambda>i. G i (xs ! i)) [0..<k]"
  have "fold (\<lambda>i ys. ys[i := G i (ys ! i)]) [0..<Suc k] xs =
    (?pre @ drop k xs)[k := G k ((?pre @ drop k xs) ! k)]"
    using Suc by simp
  also have "(?pre @ drop k xs) ! k = xs ! k"
    using k by (simp add: nth_append)
  also have "(?pre @ drop k xs)[k := G k (xs ! k)] = ?pre @ (drop k xs)[0 := G k (xs ! k)]"
    by (simp add: list_update_append)
  also have "(drop k xs)[0 := G k (xs ! k)] = G k (xs ! k) # drop (Suc k) xs"
    using k by (simp add: Cons_nth_drop_Suc [symmetric])
  finally show ?case by simp
qed

lemma fold_row_update:
  "fold (\<lambda>x nm. nm[y := (nm ! y)[x := f x]]) xs (nm :: 'a list list) =
   nm[y := fold (\<lambda>x row. row[x := f x]) xs (nm ! y)]"
proof (induction xs arbitrary: nm)
  case Nil
  show ?case by simp
next
  case (Cons x xs)
  show ?case
  proof (cases "y < length nm")
    case True
    then show ?thesis by (simp add: Cons.IH)
  next
    case False
    then have "nm[y := v] = nm" for v by (simp add: list_update_beyond)
    then show ?thesis by (simp add: Cons.IH)
  qed
qed

lemma fill_grid:
  "fold (\<lambda>y. fold (\<lambda>x nm. nm[y := (nm ! y)[x := f x y]]) [0..<w]) [0..<h]
     (replicate h (replicate w (z :: 'a))) =
   map (\<lambda>y. map (\<lambda>x. f x y) [0..<w]) [0..<h]"
proof -
  let ?G = "\<lambda>y row. fold (\<lambda>x r. r[x := f x y]) [0..<w] row"
  have row: "?G y (replicate w z) = map (\<lambda>x. f x y) [0..<w]" for y
    using fold_update_upt [of w "replicate w z" "\<lambda>x _. f x y"] by simp
  have "fold (\<lambda>y. fold (\<lambda>x nm. nm[y := (nm ! y)[x := f x y]]) [0..<w]) [0..<h]
      (replicate h (replicate w z)) =
    fold (\<lambda>y nm. nm[y := ?G y (nm ! y)]) [0..<h] (replicate h (replicate w z))"
    by (simp add: fold_row_update [abs_def])
  also have "\<dots> = map (\<lambda>y. ?G y (replicate h (replicate w z) ! y)) [0..<h]"
    using fold_update_upt [of h "replicate h (replicate w z)" ?G] by simp
  also have "\<dots> = map (\<lambda>y. map (\<lambda>x. f x y) [0..<w]) [0..<h]"
    by (simp add: row)
  finally show ?thesis .
qed

lemma no_sample_overflow:
  assumes "\<not> samples_overflow width height octaves lacunarity scale"
    and "c \<in> set (range_py width) \<union> set (range_py height)" and "i < nat octaves"
  shows "\<not> sample_overflows c scale (lacunarity ^ i)"
  using assms by (auto simp add: samples_overflow_def range_py_def)

lemma returns_pixel_body:
  assumes "randint_in_range R" and "scale \<noteq> 0"
    and "\<not> samples_overflow width height octaves lacunarity scale"
    and "x \<in> set (range_py width)" and "y \<in> set (range_py height)"
  shows "returns
    (pixel_body R (config_table octaves persistence lacunarity) octaves scale seed y x
       noise_map)
    (noise_map[y := (noise_map ! y)
       [x := raw_value_spec R octaves persistence lacunarity scale seed x y]])"
  unfolding pixel_body_def
proof (rule returns_bindM [OF returns_octave_loop [OF assms(1,2)]])
  fix i
  assume i: "i < nat octaves"
  from assms(4) show "\<not> sample_overflows x scale (lacunarity ^ i)"
    by (intro no_sample_overflow [OF assms(3) _ i]) simp
  from assms(5) show "\<not> sample_overflows y scale (lacunarity ^ i)"
    by (intro no_sample_overflow [OF assms(3) _ i]) simp
qed (rule returns_returnM)

lemma returns_raw_noise_map:
  assumes "randint_in_range R" and "scale \<noteq> 0" and "0 \<le> width" and "0 \<le> height"
    and "\<not> table_overflows octaves persistence lacunarity"
    and "\<not> samples_overflow width height octaves lacunarity scale"
    and "\<not> array_too_big height width"
  shows "returns (raw_noise_map R width height octaves persistence lacunarity scale seed)
    (map (\<lambda>y. map (\<lambda>x. raw_value_spec R octaves persistence lacunarity scale seed x y)
            [0..<nat width]) [0..<nat height])"
proof -
  let ?f = "\<lambda>x y. raw_value_spec R octaves persistence lacunarity scale seed x y"
  let ?config = "config_table octaves persistence lacunarity"
  let ?zeros = "replicate (nat height) (replicate (nat width) (0::real))"
  have zeros: "np_zeros height width = Inr ?zeros"
    using assms(3,4,7) by (simp add: np_zeros_def)
  have row: "returns
      (for_loop (range_py width) (pixel_body R ?config octaves scale seed y) nm)
      (fold (\<lambda>x nm. nm[y := (nm ! y)[x := ?f x y]]) (range_py width) nm)"
    if "y \<in> set (range_py height)" for y nm
    by (rule returns_for_loop) (rule returns_pixel_body [OF assms(1,2,6) _ that])
  have "returns
      (for_loop (range_py height)
         (\<lambda>y. for_loop (range_py width) (pixel_body R ?config octaves scale seed y)) ?zeros)
      (fold (\<lambda>y. fold (\<lambda>x nm. nm[y := (nm ! y)[x := ?f x y]]) (range_py width))
         (range_py height) ?zeros)"
    by (rule returns_for_loop) (rule row)
  then have "returns
      (bindM (amplitudes_config octaves persistence lacunarity) (\<lambda>config.
         for_loop (range_py height)
           (\<lambda>y. for_loop (range_py width) (pixel_body R config octaves scale seed y)) ?zeros))
      (fold (\<lambda>y. fold (\<lambda>x nm. nm[y := (nm ! y)[x := ?f x y]]) (range_py width))
         (range_py height) ?zeros)"
    by (rule returns_bindM [OF returns_amplitudes_config [OF assms(5)]])
  then show ?thesis
    by (simp add: raw_noise_map_def zeros range_py_def fill_grid)
qed

subsection \<open>The stand-in generator honours the contract\<close>

lemma lcg_in_range: "randint_in_range lcg"
  unfolding randint_in_range_def
proof (intro allI impI)
  fix g a b :: int
  assume "a \<le> b"
  then have pos: "0 < b - a + 1" by simp
  define r where "r = ((g * 1103515245 + 12345) mod 2147483648 div 65536) mod (b - a + 1)"
  have "0 \<le> r" and "r < b - a + 1"
    unfolding r_def by (rule pos_mod_sign [OF pos], rule pos_mod_bound [OF pos])
  moreover have "fst (randint_fn lcg g a b) = a + r"
    by (simp add: lcg_def Let_def r_def)
  ultimately show "a \<le> fst (randint_fn lcg g a b) \<and> fst (randint_fn lcg g a b) \<le> b"
    by simp
qed

subsection \<open>Minimum, maximum and flat fields\<close>

lemma np_min_eq_Min:
  assumes "concat a \<noteq> []"
  shows "np_min a = Inr (Min (set (concat a)))"
proof -
  from assms obtain v vs where cells: "concat a = v # vs"
    by (cases "concat a") auto
  have "Min (set (v # vs)) = fold min vs v"
    by (rule Min.set_eq_fold)
  then show ?thesis
    unfolding np_min_def cells by simp
qed

lemma np_max_eq_Max:
  assumes "concat a \<noteq> []"
  shows "np_max a = Inr (Max (set (concat a)))"
proof -
  from assms obtain v vs where cells: "concat a = v # vs"
    by (cases "concat a") auto
  have "Max (set (v # vs)) = fold max vs v"
    by (rule Max.set_eq_fold)
  then show ?thesis
    unfolding np_max_def cells by simp
qed

lemma concat_map_map: "concat (map (map f) a) = map f (concat a)"
  by (induction a) simp_all

subsection \<open>Loops that leave the generator alone, and lattice points\<close>

lemma for_loop_pure:
  assumes "\<And>i s. i \<in> set idxs \<Longrightarrow> body i s g = (Inr (upd i s), g)"
  shows "for_loop idxs body s g = (Inr (fold upd idxs s), g)"
  using assms by (induction idxs arbitrary: s) simp_all

lemma for_loop_raises_at_once:
  assumes "0 < n" and "body 0 s g = (Inl e, g)"
  shows "for_loop (range_py n) body s g = (Inl e, g)"
  using assms by (simp add: range_py_def upt_conv_Cons)

lemma normalize_flat:
  assumes "concat noise_map \<noteq> []" and "set (concat noise_map) = {c}"
  shows "normalize_noise_map noise_map = Inr (map (map (\<lambda>v. 1 / 2)) noise_map)"
  using assms by (simp add: normalize_noise_map_def np_min_eq_Min np_max_eq_Max)

lemma gradientInfluence_at_cell:
  "gradientInfluence R ix iy (real_of_int ix) (real_of_int iy) seed = 0"
  by (simp add: gradientInfluence_def Let_def)

lemma octaveValue_lattice:
  assumes "sample_x \<in> \<int>" and "sample_y \<in> \<int>"
  shows "octaveValue R sample_x sample_y seed = 0"
proof -
  from assms obtain a b where "sample_x = real_of_int a" and "sample_y = real_of_int b"
    by (auto elim!: Ints_cases)
  then show ?thesis
    by (simp add: octaveValue_def Let_def fade_spec_def lerp_spec_def gradientInfluence_at_cell)
qed

lemma raw_value_spec_origin:
  "raw_value_spec R octaves persistence lacunarity scale seed 0 0 = 0"
  by (simp add: raw_value_spec_def octaveValue_lattice)

subsection \<open>Parameters outside the preconditions\<close>

lemma generate_rejected_dimension:
  assumes "width < 0 \<or> height < 0 \<or> array_too_big height width"
  shows "generate_perlin_noise R width height octaves persistence lacunarity scale seed g =
    (Inl ValueError, g)"
  using assms
  by (auto simp add: generate_perlin_noise_def raw_noise_map_def np_zeros_def bindM_def
      raiseM_def)

lemma raw_noise_map_table_overflow:
  assumes "0 \<le> width" and "0 \<le> height" and "\<not> array_too_big height width"
    and "table_overflows octaves persistence lacunarity"
  shows "raw_noise_map R width height octaves persistence lacunarity scale seed g =
    (Inl OverflowError, g)"
  using assms
  by (simp add: raw_noise_map_def np_zeros_def bindM_def amplitudes_config_result)

lemma generate_table_overflow:
  assumes "0 \<le> width" and "0 \<le> height" and "\<not> array_too_big height width"
    and "table_overflows octaves persistence lacunarity"
  shows "generate_perlin_noise R width height octaves persistence lacunarity scale seed g =
    (Inl OverflowError, g)"
  by (simp add: generate_perlin_noise_def bindM_def raw_noise_map_table_overflow [OF assms])

lemma raw_noise_map_table_built:
  assumes "0 \<le> width" and "0 \<le> height" and "\<not> array_too_big height width"
    and "\<not> table_overflows octaves persistence lacunarity"
  shows "raw_noise_map R width height octaves persistence lacunarity scale seed g =
    for_loop (range_py height)
      (\<lambda>y. for_loop (range_py width)
         (pixel_body R (config_table octaves persistence lacunarity) octaves scale seed y))
      (replicate (nat height) (replicate (nat width) 0)) g"
  using assms
  by (simp add: raw_noise_map_def np_zeros_def bindM_def amplitudes_config_result)

lemma normalize_no_cells: "concat noise_map = [] \<Longrightarrow> normalize_noise_map noise_map = Inl ValueError"
  by (simp add: normalize_noise_map_def np_min_def del: concat_eq_Nil_conv)

lemma generate_zero_dimension:
  assumes "0 \<le> width" and "0 \<le> height" and "width = 0 \<or> height = 0"
    and "\<not> table_overflows octaves persistence lacunarity"
    and "\<not> array_too_big height width"
  shows "generate_perlin_noise R width height octaves persistence lacunarity scale seed g =
    (Inl ValueError, g)"
proof -
  let ?zeros = "replicate (nat height) (replicate (nat width) (0::real))"
  let ?config = "config_table octaves persistence lacunarity"
  have empty: "concat ?zeros = []"
    using assms(3) by auto
  have "for_loop (range_py height)
      (\<lambda>y. for_loop (range_py width) (pixel_body R ?config octaves scale seed y)) ?zeros g =
    (Inr (fold (\<lambda>y nm. nm) (range_py height) ?zeros), g)"
  proof (cases "width = 0")
    case True
    show ?thesis
      by (rule for_loop_pure) (simp add: True range_py_def)
  next
    case False
    with assms(3) have "range_py height = []" by (simp add: range_py_def)
    then show ?thesis by simp
  qed
  moreover have "fold (\<lambda>y nm. nm) idxs nm = nm" for idxs :: "nat list" and nm :: "real list list"
    by (induction idxs) simp_all
  ultimately have "raw_noise_map R width height octaves persistence lacunarity scale seed g =
      (Inr ?zeros, g)"
    by (simp add: raw_noise_map_table_built [OF assms(1,2,5,4)])
  then show ?thesis
    by (simp add: generate_perlin_noise_def bindM_def normalize_no_cells [OF empty])
qed

lemma octave_body_zero_scale:
  assumes "i < nat octaves"
  shows "octave_body R (config_table octaves persistence lacunarity) 0 seed x y i
      noise_value g = (Inl ZeroDivisionError, g)"
  by (simp add: octave_body_def py_index_config_table [OF assms] raiseM_def)

lemma generate_zero_scale:
  assumes "0 < width" and "0 < height" and "1 \<le> octaves"
    and "\<not> table_overflows octaves persistence lacunarity"
    and "\<not> array_too_big height width"
  shows "generate_perlin_noise R width height octaves persistence lacunarity 0 seed g =
    (Inl ZeroDivisionError, g)"
proof -
  let ?zeros = "replicate (nat height) (replicate (nat width) (0::real))"
  let ?config = "config_table octaves persistence lacunarity"
  from assms(1,2) have dims: "0 \<le> width" "0 \<le> height" by simp_all
  from assms(3) have oct: "0 < octaves" and first: "(0::nat) < nat octaves"
    by simp_all
  have "for_loop (range_py octaves) (octave_body R ?config 0 seed x y) 0 g =
      (Inl ZeroDivisionError, g)" for x y
    by (rule for_loop_raises_at_once [OF oct]) (rule octave_body_zero_scale [OF first])
  then have pixel: "pixel_body R ?config octaves 0 seed y x nm g = (Inl ZeroDivisionError, g)"
    for x y nm
    by (simp add: pixel_body_def bindM_def)
  have row: "for_loop (range_py width) (pixel_body R ?config octaves 0 seed y) nm g =
      (Inl ZeroDivisionError, g)" for y nm
    by (rule for_loop_raises_at_once [OF assms(1)]) (rule pixel)
  have "for_loop (range_py height)
      (\<lambda>y. for_loop (range_py width) (pixel_body R ?config octaves 0 seed y)) ?zeros g =
      (Inl ZeroDivisionError, g)"
    by (rule for_loop_raises_at_once [OF assms(2)]) (rule row)
  then show ?thesis
    by (simp add: generate_perlin_noise_def raw_noise_map_table_built [OF dims assms(5,4)]
        bindM_def)
qed

lemma no_octaves_no_overflow:
  "octaves < 1 \<Longrightarrow> \<not> table_overflows octaves persistence lacunarity"
  by (simp add: table_overflows_def range_py_def)

lemma generate_no_octaves:
  assumes "0 < width" and "0 < height" and "octaves < 1"
    and "\<not> array_too_big height width"
  shows "generate_perlin_noise R width height octaves persistence lacunarity scale seed g =
    (Inr (replicate (nat height) (replicate (nat width) (1 / 2))), g)"
proof -
  let ?zeros = "replicate (nat height) (replicate (nat width) (0::real))"
  let ?config = "config_table octaves persistence lacunarity"
  from assms(1,2) have dims: "0 \<le> width" "0 \<le> height" by simp_all
  from assms(3) have oct: "range_py octaves = []"
    by (simp add: range_py_def)
  have pixel: "pixel_body R ?config octaves scale seed y x nm g' =
      (Inr (nm[y := (nm ! y)[x := 0]]), g')" for x y nm g'
    by (simp add: pixel_body_def oct bindM_def returnM_def)
  have row: "for_loop (range_py width) (pixel_body R ?config octaves scale seed y) nm g =
      (Inr (fold (\<lambda>x nm. nm[y := (nm ! y)[x := 0]]) (range_py width) nm), g)" for y nm
    by (rule for_loop_pure) (rule pixel)
  have "for_loop (range_py height)
      (\<lambda>y. for_loop (range_py width) (pixel_body R ?config octaves scale seed y)) ?zeros g =
      (Inr (fold (\<lambda>y. fold (\<lambda>x nm. nm[y := (nm ! y)[x := 0]]) (range_py width))
         (range_py height) ?zeros), g)"
    by (rule for_loop_pure) (rule row)
  also have "fold (\<lambda>y. fold (\<lambda>x nm. nm[y := (nm ! y)[x := 0]]) (range_py width))
      (range_py height) ?zeros = ?zeros"
    unfolding range_py_def
    by (simp add: fill_grid [where f = "\<lambda>x y. 0"] map_replicate_const)
  finally have raw: "raw_noise_map R width height octaves persistence lacunarity scale seed g =
      (Inr ?zeros, g)"
    by (simp add: raw_noise_map_table_built
        [OF dims assms(4) no_octaves_no_overflow [OF assms(3)]])
  have cells: "concat ?zeros \<noteq> []" "set (concat ?zeros) = {0}"
    using assms(1,2) by auto
  have "normalize_noise_map ?zeros = Inr (replicate (nat height) (replicate (nat width) (1 / 2)))"
    by (simp add: normalize_flat [OF cells])
  with raw show ?thesis
    by (simp add: generate_perlin_noise_def bindM_def)
qed

subsection \<open>Inside and outside the double range\<close>

lemma two_to_1024_overflows: "table_overflows 1025 persistence 2"
  unfolding table_overflows_def
proof (rule bexI [where x = 1024])
  show "float_overflows (2 ^ 1024) \<or> float_overflows (persistence ^ 1024)"
    by (simp add: float_overflows_def)
  show "1024 \<in> set (range_py 1025)"
    by (simp add: range_py_def)
qed

lemma power_in_range:
  assumes "\<bar>b\<bar> \<le> 2" and "n \<le> 1000"
  shows "\<not> float_overflows (b ^ n)"
proof -
  have "\<bar>b ^ n\<bar> = \<bar>b\<bar> ^ n"
    by (simp add: power_abs)
  also have "\<dots> \<le> 2 ^ n"
    using assms(1) by (intro power_mono) simp_all
  also have "\<dots> \<le> (2::real) ^ 1000"
    using assms(2) by (intro power_increasing) simp_all
  also have "\<dots> < 2 ^ 1024 - 2 ^ 970"
    by simp
  finally show ?thesis
    by (simp add: float_overflows_def)
qed

lemma table_in_range:
  assumes "\<bar>lacunarity\<bar> \<le> 2" and "\<bar>persistence\<bar> \<le> 2" and "octaves \<le> 1000"
  shows "\<not> table_overflows octaves persistence lacunarity"
  using assms by (auto simp add: table_overflows_def range_py_def power_in_range)

lemma small_array:
  assumes "0 \<le> height" and "height \<le> 1000" and "0 \<le> width" and "width \<le> 1000"
  shows "\<not> array_too_big height width"
proof -
  let ?h = "if height = 0 then 1 else height" and ?w = "if width = 0 then 1 else width"
  from assms have "0 \<le> ?h" and "?h \<le> 1000" and "0 \<le> ?w" and "?w \<le> 1000"
    by simp_all
  then have "?h * ?w \<le> 1000 * 1000"
    by (intro mult_mono) simp_all
  then have "8 * ?h * ?w < 2 ^ 63"
    by simp
  then show ?thesis
    by (simp add: array_too_big_def)
qed

lemma origin_in_range: "\<not> samples_overflow 1 1 octaves lacunarity scale"
  by (simp add: samples_overflow_def sample_overflows_def range_py_def float_overflows_def)

lemma sample_in_range:
  assumes "1 \<le> \<bar>scale\<bar>" and "\<bar>lacunarity\<bar> \<le> 2" and "c \<le> 1000" and "i \<le> 900"
  shows "\<not> sample_overflows c scale (lacunarity ^ i)"
proof -
  have q: "\<bar>real c / scale\<bar> \<le> 1000"
  proof -
    have "\<bar>real c / scale\<bar> = real c / \<bar>scale\<bar>" by simp
    also have "\<dots> \<le> real c / 1"
      using assms(1) by (intro divide_left_mono) simp_all
    also have "\<dots> \<le> 1000" using assms(3) by simp
    finally show ?thesis .
  qed
  have pw: "\<bar>lacunarity ^ i\<bar> \<le> 2 ^ 900"
  proof -
    have "\<bar>lacunarity ^ i\<bar> = \<bar>lacunarity\<bar> ^ i" by (simp add: power_abs)
    also have "\<dots> \<le> 2 ^ i" using assms(2) by (intro power_mono) simp_all
    also have "\<dots> \<le> (2::real) ^ 900" using assms(4) by (intro power_increasing) simp_all
    finally show ?thesis .
  qed
  have "\<bar>real c / scale * lacunarity ^ i\<bar> = \<bar>real c / scale\<bar> * \<bar>lacunarity ^ i\<bar>"
    by (simp add: abs_mult)
  also have "\<dots> \<le> 1000 * 2 ^ 900"
    using q pw by (intro mult_mono) simp_all
  also have "\<dots> < 2 ^ 1024 - 2 ^ 970" by simp
  finally have "\<not> float_overflows (real c / scale * lacunarity ^ i)"
    by (simp add: float_overflows_def)
  moreover from q have "\<not> float_overflows (real c / scale)"
    by (simp add: float_overflows_def)
  ultimately show ?thesis
    by (simp add: sample_overflows_def)
qed

lemma samples_in_range:
  assumes "1 \<le> \<bar>scale\<bar>" and "\<bar>lacunarity\<bar> \<le> 2"
    and "width \<le> 1000" and "height \<le> 1000" and "octaves \<le> 900"
  shows "\<not> samples_overflow width height octaves lacunarity scale"
  unfolding samples_overflow_def
proof (intro notI, elim bexE)
  fix i c
  assume "i \<in> set (range_py octaves)"
    and "c \<in> set (range_py width) \<union> set (range_py height)"
    and bad: "sample_overflows c scale (lacunarity ^ i)"
  with assms(3,4,5) have "c \<le> 1000" and "i \<le> 900"
    by (auto simp add: range_py_def)
  from sample_in_range [OF assms(1,2) this] bad show False ..
qed

section \<open>The claims\<close>

text \<open>
  C1. Determinism: the terrain grid produced by the pipeline (noise generation, then
  classification) is a function of the seed, the dimensions and the generation
  parameters alone. In particular it does not depend on the state in which earlier calls
  left the module-level generator: started in any two generator states, the pipeline
  ends with the same outcome.
\<close>

theorem pipeline_deterministic:
  "fst (pipeline R width height octaves persistence lacunarity scale seed g1) =
   fst (pipeline R width height octaves persistence lacunarity scale seed g2)"
  using state_oblivious_pipeline [of R width height octaves persistence lacunarity scale seed]
  by (simp add: state_oblivious_def)

text \<open>
  C2, as the code has it. Raw-field reference definition: with \<open>width > 0\<close>,
  \<open>height > 0\<close>, \<open>octaves \<ge> 1\<close> and \<open>scale \<noteq> 0\<close>, a generator that honours the contract
  of \<open>randint\<close>, and provided that the array is within numpy's size limit and no power
  of the frequency and amplitude table and no sample coordinate of the grid overflows
  the double range, the field before
  normalisation holds at row \<open>y\<close>, column \<open>x\<close> the specification's sum over the octaves:
  amplitude \<open>persistence ^ i\<close> times the fade-weighted bilinear interpolation of the
  four corner gradient dot products at the sample point
  \<open>(x / scale * lacunarity ^ i, y / scale * lacunarity ^ i)\<close>.
\<close>

theorem raw_field_reference:
  assumes "randint_in_range R"
    and "0 < width" and "0 < height" and "1 \<le> octaves" and "scale \<noteq> 0"
    and "\<not> array_too_big height width"
    and "\<not> table_overflows octaves persistence lacunarity"
    and "\<not> samples_overflow width height octaves lacunarity scale"
  shows "fst (raw_noise_map R width height octaves persistence lacunarity scale seed g) =
    Inr (map (\<lambda>y. map (\<lambda>x. raw_value_spec R octaves persistence lacunarity scale seed x y)
                [0..<nat width]) [0..<nat height])"
proof -
  from assms(2,3) have "0 \<le> width" and "0 \<le> height" by simp_all
  from returns_raw_noise_map [OF assms(1,5) this assms(7,8,6)] show ?thesis
    by (simp add: returns_def)
qed

theorem raw_field_reference_witness:
  "randint_in_range lcg \<and> (0::int) < 2 \<and> (0::int) < 1 \<and> (1::int) \<le> 2 \<and> (30::real) \<noteq> 0 \<and>
   \<not> array_too_big 1 2 \<and> \<not> table_overflows 2 (1/2) 2 \<and> \<not> samples_overflow 2 1 2 2 30 \<and>
   fst (raw_noise_map lcg 2 1 2 (1/2) 2 30 0 0) =
     Inr [[raw_value_spec lcg 2 (1/2) 2 30 0 0 0, raw_value_spec lcg 2 (1/2) 2 30 0 1 0]]"
proof -
  have table: "\<not> table_overflows 2 (1/2) 2"
    by (rule table_in_range) simp_all
  have samples: "\<not> samples_overflow 2 1 2 2 30"
    by (rule samples_in_range) simp_all
  have array: "\<not> array_too_big 1 2"
    by (rule small_array) simp_all
  have "fst (raw_noise_map lcg 2 1 2 (1/2) 2 30 0 0) =
     Inr [[raw_value_spec lcg 2 (1/2) 2 30 0 0 0, raw_value_spec lcg 2 (1/2) 2 30 0 1 0]]"
    using raw_field_reference [OF lcg_in_range _ _ _ _ array table samples, of 0 0]
    by (simp add: upt_conv_Cons)
  with lcg_in_range array table samples show ?thesis by simp
qed

text \<open>
  The claim as the specification states it covers every octave count from 1 on. With
  1025 octaves and the default lacunarity \<open>2.0\<close>, the power \<open>2.0 ** 1024\<close> of line 73
  overflows and the call raises before any pixel is computed.
\<close>

theorem raw_field_reference_counterexample:
  "(0::int) < 2 \<and> (1::int) \<le> 1025 \<and> (30::real) \<noteq> 0 \<and>
   fst (raw_noise_map lcg 2 2 1025 (1/2) 2 30 123 0) = Inl OverflowError"
  by (simp add: raw_noise_map_table_overflow [OF _ _ small_array two_to_1024_overflows])

text \<open>
  C3. Contract of \<open>gradient\<close>: the generator is re-seeded with
  \<open>seed + cellX * 100000 + cellY * 1000\<close>, one integer \<open>k\<close> with \<open>0 \<le> k < 8\<close> is drawn, and
  the result is the dot product of entry \<open>k\<close> of the table with the displacement
  \<open>(sampleX - cellX, sampleY - cellY)\<close>; the table holds the four axis directions and the
  four diagonals.
\<close>

theorem gradient_contract:
  assumes "randint_in_range R"
  shows "\<exists>k g'. randint_fn R (seed_fn R (seed + cellX * 100000 + cellY * 1000)) 0 7 = (k, g') \<and>
    0 \<le> k \<and> k < 8 \<and>
    gradient R cellX cellY sampleX sampleY seed g =
      (Inr (real_of_int (fst (gradients ! nat k)) * (sampleX - real_of_int cellX) +
            real_of_int (snd (gradients ! nat k)) * (sampleY - real_of_int cellY)), g') \<and>
    set gradients = {(1, 0), (-1, 0), (0, 1), (0, -1)} \<union> {(1, 1), (1, -1), (-1, 1), (-1, -1)} \<and>
    length gradients = 8"
proof -
  define d where "d = randint_fn R (seed_fn R (seed + cellX * 100000 + cellY * 1000)) 0 7"
  from assms have "0 \<le> fst d \<and> fst d \<le> 7"
    unfolding randint_in_range_def d_def by simp
  moreover have "gradient R cellX cellY sampleX sampleY seed g =
      (Inr (real_of_int (fst (gradients ! nat (fst d))) * (sampleX - real_of_int cellX) +
            real_of_int (snd (gradients ! nat (fst d))) * (sampleY - real_of_int cellY)), snd d)"
    by (simp add: gradient_in_range [OF assms] gradientInfluence_def d_def Let_def)
  moreover have "set gradients =
      {(1, 0), (-1, 0), (0, 1), (0, -1)} \<union> {(1, 1), (1, -1), (-1, 1), (-1, -1)}"
    by (auto simp add: gradients_def)
  ultimately show ?thesis
    unfolding d_def [symmetric]
    by (intro exI [of _ "fst d"] exI [of _ "snd d"]) (simp add: length_gradients)
qed

theorem gradient_contract_witness:
  "randint_in_range lcg \<and> gradient lcg 3 5 (7/2) (21/4) 42 0 = (Inr (- (1/4)), 435553635)"
proof -
  have "gradient lcg 3 5 (7/2) (21/4) 42 0 = (Inr (- (1/4)), 435553635)"
    using gradient_contract [OF lcg_in_range, of 42 3 5 "7/2" "21/4" 0]
    by (auto simp add: lcg_def gradients_def)
  with lcg_in_range show ?thesis by simp
qed

text \<open>
  C4. Normalisation postcondition: a field with at least one cell is rescaled cell by
  cell to \<open>(value - min) / (max - min)\<close>, where \<open>min\<close> and \<open>max\<close> are the least and the
  greatest cell of the raw field; every cell of the result lies in \<open>[0, 1]\<close>, some cell
  is exactly \<open>0\<close> and some cell is exactly \<open>1\<close>. When \<open>max - min = 0\<close> every cell
  becomes \<open>1/2\<close> instead, and no exception is raised.
\<close>

theorem normalize_postcondition:
  assumes "concat noise_map \<noteq> []"
  shows "\<exists>out. normalize_noise_map noise_map = Inr out \<and>
    (let lo = Min (set (concat noise_map)); hi = Max (set (concat noise_map))
     in if hi - lo = 0
        then out = map (map (\<lambda>v. 1 / 2)) noise_map \<and> (\<forall>v \<in> set (concat out). v = 1 / 2)
        else out = map (map (\<lambda>v. (v - lo) / (hi - lo))) noise_map \<and>
             (\<forall>v \<in> set (concat out). 0 \<le> v \<and> v \<le> 1) \<and>
             0 \<in> set (concat out) \<and> 1 \<in> set (concat out))"
proof -
  let ?cells = "set (concat noise_map)"
  define lo where "lo = Min ?cells"
  define hi where "hi = Max ?cells"
  from assms have fin: "finite ?cells" and ne: "?cells \<noteq> {}" by simp_all
  have lo_in: "lo \<in> ?cells" and hi_in: "hi \<in> ?cells"
    unfolding lo_def hi_def by (rule Min_in [OF fin ne], rule Max_in [OF fin ne])
  have bounds: "lo \<le> v \<and> v \<le> hi" if "v \<in> ?cells" for v
    using that fin by (simp add: lo_def hi_def)
  then have le: "lo \<le> hi" using lo_in by blast
  have mins: "np_min noise_map = Inr lo" "np_max noise_map = Inr hi"
    using assms by (simp_all add: np_min_eq_Min np_max_eq_Max lo_def hi_def)
  show ?thesis
  proof (cases "hi - lo = 0")
    case True
    then have "normalize_noise_map noise_map = Inr (map (map (\<lambda>v. 1 / 2)) noise_map)"
      by (simp add: normalize_noise_map_def mins)
    moreover have "\<forall>v \<in> set (concat (map (map (\<lambda>v. 1 / 2 :: real)) noise_map)). v = 1 / 2"
      by (auto simp add: concat_map_map)
    ultimately show ?thesis
      unfolding Let_def lo_def [symmetric] hi_def [symmetric] using True by simp
  next
    case False
    with le have pos: "0 < hi - lo" by simp
    let ?f = "\<lambda>v. (v - lo) / (hi - lo)"
    let ?out = "map (map ?f) noise_map"
    have out: "normalize_noise_map noise_map = Inr ?out"
      using pos by (simp add: normalize_noise_map_def mins)
    have cells: "set (concat ?out) = ?f ` ?cells"
      by (simp add: concat_map_map)
    have range: "0 \<le> v \<and> v \<le> 1" if "v \<in> set (concat ?out)" for v
    proof -
      from that cells obtain u where u: "u \<in> ?cells" and v: "v = ?f u" by auto
      from bounds [OF u] pos show ?thesis
        by (simp add: v divide_le_eq_1)
    qed
    have "?f lo = 0" by simp
    with lo_in cells have zero: "0 \<in> set (concat ?out)" by (metis image_eqI)
    have "?f hi = 1" using pos by simp
    with hi_in cells have one: "1 \<in> set (concat ?out)" by (metis image_eqI)
    from range have "\<forall>v \<in> set (concat ?out). 0 \<le> v \<and> v \<le> 1" by blast
    with False out zero one show ?thesis
      unfolding Let_def lo_def [symmetric] hi_def [symmetric] by simp
  qed
qed

theorem normalize_postcondition_witness:
  "concat [[0, 2], [1, 4 :: real]] \<noteq> [] \<and>
   normalize_noise_map [[0, 2], [1, 4]] = Inr [[0, 1 / 2], [1 / 4, 1]]"
proof -
  have ne: "concat [[0, 2], [1, 4 :: real]] \<noteq> []" by simp
  have "normalize_noise_map [[0, 2], [1, 4]] = Inr [[0, 1 / 2], [1 / 4, 1]]"
    using normalize_postcondition [OF ne] by (auto simp add: Let_def)
  with ne show ?thesis by simp
qed

text \<open>
  C5. Threshold partition: for every cell of a field, the terrain code is \<open>0\<close> exactly
  when the value is below \<open>0.4\<close>, \<open>1\<close> exactly when it lies in \<open>[0.4, 0.7)\<close>, and \<open>2\<close>
  exactly when it is at least \<open>0.7\<close>.
\<close>

theorem threshold_partition:
  assumes "y < length noise_map" and "x < length (noise_map ! y)"
  shows "(noise_map ! y ! x < 0.4 \<longleftrightarrow> terrain_tiles noise_map ! y ! x = 0) \<and>
    (0.4 \<le> noise_map ! y ! x \<and> noise_map ! y ! x < 0.7 \<longleftrightarrow> terrain_tiles noise_map ! y ! x = 1) \<and>
    (0.7 \<le> noise_map ! y ! x \<longleftrightarrow> terrain_tiles noise_map ! y ! x = 2)"
  using assms by (simp add: terrain_tiles_def classify_def)

theorem threshold_partition_witness:
  "(0::nat) < length [[0.1, 0.4, 0.7 :: real]] \<and> (1::nat) < length ([[0.1, 0.4, 0.7 :: real]] ! 0) \<and>
   terrain_tiles [[0.1, 0.4, 0.7]] ! 0 ! 1 = 1"
proof -
  have "terrain_tiles [[0.1, 0.4, 0.7]] ! 0 ! 1 = 1"
    using threshold_partition [of 0 "[[0.1, 0.4, 0.7]]" 1] by simp
  then show ?thesis by simp
qed

text \<open>
  C6, as the code has it. \<open>generate_perlin_noise\<close> checks none of its parameters, and
  what happens outside the preconditions is what the operations it performs do, in
  the order the code performs them. A negative \<open>width\<close> or \<open>height\<close>, or an array
  beyond numpy's size limit, ends in \<open>ValueError\<close>. Otherwise, a power of the frequency and
  amplitude table that overflows ends in \<open>OverflowError\<close>. Otherwise, a zero \<open>width\<close>
  or \<open>height\<close> ends in \<open>ValueError\<close> (the minimum of an array without cells); with
  positive dimensions and \<open>octaves \<ge> 1\<close>, \<open>scale = 0\<close> ends in \<open>ZeroDivisionError\<close> at
  the first pixel; with positive dimensions, \<open>octaves < 1\<close> raises nothing and yields
  the field filled with \<open>1/2\<close>, whatever the scale. In all these cases the generator
  is left as it was: no gradient has been evaluated.
\<close>

theorem invalid_parameter_behaviour:
  "(width < 0 \<or> height < 0 \<or> array_too_big height width \<longrightarrow>
      generate_perlin_noise R width height octaves persistence lacunarity scale seed g =
        (Inl ValueError, g)) \<and>
   (0 \<le> width \<and> 0 \<le> height \<and> \<not> array_too_big height width \<and>
      table_overflows octaves persistence lacunarity \<longrightarrow>
      generate_perlin_noise R width height octaves persistence lacunarity scale seed g =
        (Inl OverflowError, g)) \<and>
   (0 \<le> width \<and> 0 \<le> height \<and> \<not> array_too_big height width \<and>
      (width = 0 \<or> height = 0) \<and>
      \<not> table_overflows octaves persistence lacunarity \<longrightarrow>
      generate_perlin_noise R width height octaves persistence lacunarity scale seed g =
        (Inl ValueError, g)) \<and>
   (0 < width \<and> 0 < height \<and> \<not> array_too_big height width \<and> 1 \<le> octaves \<and> scale = 0 \<and>
      \<not> table_overflows octaves persistence lacunarity \<longrightarrow>
      generate_perlin_noise R width height octaves persistence lacunarity scale seed g =
        (Inl ZeroDivisionError, g)) \<and>
   (0 < width \<and> 0 < height \<and> \<not> array_too_big height width \<and> octaves < 1 \<longrightarrow>
      generate_perlin_noise R width height octaves persistence lacunarity scale seed g =
        (Inr (replicate (nat height) (replicate (nat width) (1 / 2))), g))"
proof (intro conjI impI)
  assume "width < 0 \<or> height < 0 \<or> array_too_big height width"
  then show "generate_perlin_noise R width height octaves persistence lacunarity scale seed g =
      (Inl ValueError, g)"
    by (rule generate_rejected_dimension)
next
  assume "0 \<le> width \<and> 0 \<le> height \<and> \<not> array_too_big height width \<and>
    table_overflows octaves persistence lacunarity"
  then show "generate_perlin_noise R width height octaves persistence lacunarity scale seed g =
      (Inl OverflowError, g)"
    by (simp add: generate_table_overflow)
next
  assume "0 \<le> width \<and> 0 \<le> height \<and> \<not> array_too_big height width \<and>
    (width = 0 \<or> height = 0) \<and> \<not> table_overflows octaves persistence lacunarity"
  then show "generate_perlin_noise R width height octaves persistence lacunarity scale seed g =
      (Inl ValueError, g)"
    by (intro generate_zero_dimension) simp_all
next
  assume "0 < width \<and> 0 < height \<and> \<not> array_too_big height width \<and> 1 \<le> octaves \<and>
    scale = 0 \<and> \<not> table_overflows octaves persistence lacunarity"
  then show "generate_perlin_noise R width height octaves persistence lacunarity scale seed g =
      (Inl ZeroDivisionError, g)"
    by (simp add: generate_zero_scale)
next
  assume "0 < width \<and> 0 < height \<and> \<not> array_too_big height width \<and> octaves < 1"
  then show "generate_perlin_noise R width height octaves persistence lacunarity scale seed g =
      (Inr (replicate (nat height) (replicate (nat width) (1 / 2))), g)"
    by (simp add: generate_no_octaves)
qed

theorem invalid_parameter_behaviour_witness:
  "generate_perlin_noise lcg 3 (- 1) 4 (1 / 2) 2 30 7 99 = (Inl ValueError, 99) \<and>
   generate_perlin_noise lcg (2 ^ 40) (2 ^ 40) 4 (1 / 2) 2 30 7 99 = (Inl ValueError, 99) \<and>
   generate_perlin_noise lcg 0 3 1025 (1 / 2) 2 30 7 99 = (Inl OverflowError, 99) \<and>
   generate_perlin_noise lcg 2 2 1025 (1 / 2) 2 0 7 99 = (Inl OverflowError, 99) \<and>
   generate_perlin_noise lcg 0 3 4 (1 / 2) 2 30 7 99 = (Inl ValueError, 99) \<and>
   generate_perlin_noise lcg 2 2 4 (1 / 2) 2 0 7 99 = (Inl ZeroDivisionError, 99) \<and>
   generate_perlin_noise lcg 2 1 0 (1 / 2) 2 0 7 99 = (Inr [[1 / 2, 1 / 2]], 99)"
proof -
  note inst = invalid_parameter_behaviour [where R = lcg and persistence = "1 / 2"
      and lacunarity = 2 and seed = 7 and g = 99]
  have big: "table_overflows 1025 (1 / 2) 2"
    by (rule two_to_1024_overflows)
  have small: "\<not> table_overflows 4 (1 / 2) 2"
    by (rule table_in_range) simp_all
  have fits: "\<not> array_too_big 3 0" "\<not> array_too_big 2 2" "\<not> array_too_big 1 2"
    by (simp_all add: array_too_big_def)
  have "generate_perlin_noise lcg 3 (- 1) 4 (1 / 2) 2 30 7 99 = (Inl ValueError, 99)"
    using inst [where width = 3 and height = "- 1" and octaves = 4 and scale = 30] by simp
  moreover have "generate_perlin_noise lcg (2 ^ 40) (2 ^ 40) 4 (1 / 2) 2 30 7 99 =
      (Inl ValueError, 99)"
    using inst [where width = "2 ^ 40" and height = "2 ^ 40" and octaves = 4 and scale = 30]
    by (simp add: array_too_big_def)
  moreover have "generate_perlin_noise lcg 0 3 1025 (1 / 2) 2 30 7 99 = (Inl OverflowError, 99)"
    using inst [where width = 0 and height = 3 and octaves = 1025 and scale = 30] big fits
    by simp
  moreover have "generate_perlin_noise lcg 2 2 1025 (1 / 2) 2 0 7 99 = (Inl OverflowError, 99)"
    using inst [where width = 2 and height = 2 and octaves = 1025 and scale = 0] big fits
    by simp
  moreover have "generate_perlin_noise lcg 0 3 4 (1 / 2) 2 30 7 99 = (Inl ValueError, 99)"
    using inst [where width = 0 and height = 3 and octaves = 4 and scale = 30] small fits
    by simp
  moreover have "generate_perlin_noise lcg 2 2 4 (1 / 2) 2 0 7 99 = (Inl ZeroDivisionError, 99)"
    using inst [where width = 2 and height = 2 and octaves = 4 and scale = 0] small fits
    by simp
  moreover have "generate_perlin_noise lcg 2 1 0 (1 / 2) 2 0 7 99 = (Inr [[1 / 2, 1 / 2]], 99)"
    using inst [where width = 2 and height = 1 and octaves = 0 and scale = 0] fits
    by (simp add: numeral_2_eq_2)
  ultimately show ?thesis by simp
qed

text \<open>
  The claim as the specification states it asks for an error whenever \<open>octaves < 1\<close>.
  With \<open>octaves = 0\<close> on a one-by-one field the call returns \<open>[[1/2]]\<close>.
\<close>

theorem invalid_parameter_counterexample:
  "(0::int) < 1 \<and> generate_perlin_noise lcg 1 1 0 (1 / 2) 2 30 0 0 = (Inr [[1 / 2]], 0)"
  by (simp add: generate_perlin_noise_def raw_noise_map_def np_zeros_def array_too_big_def
      range_py_def amplitudes_config_def pixel_body_def bindM_def returnM_def normalize_noise_map_def
      np_min_def np_max_def)

text \<open>
  C7. The one-by-one scenario: with \<open>width = 1\<close>, \<open>height = 1\<close>, \<open>octaves = 1\<close> and
  \<open>seed = 0\<close> the four corner lookups succeed, the raw field is \<open>[[0]]\<close>, its minimum and
  maximum coincide, the normalised field is \<open>[[1/2]]\<close> and the tiles are \<open>[[1]]\<close>. The
  route handler, which fixes four octaves, answers \<open>[[1]]\<close> for size 1 as well.
\<close>

theorem single_cell_scenario:
  assumes "randint_in_range R" and "scale \<noteq> 0"
  shows "fst (raw_noise_map R 1 1 1 persistence lacunarity scale 0 g) = Inr [[0]] \<and>
    np_min [[0]] = Inr 0 \<and> np_max [[0]] = Inr 0 \<and>
    fst (generate_perlin_noise R 1 1 1 persistence lacunarity scale 0 g) = Inr [[1 / 2]] \<and>
    fst (pipeline R 1 1 1 persistence lacunarity scale 0 g) = Inr [[1]] \<and>
    fst (generate_world R 0 1 g) = Inr (1, [[1]])"
proof -
  have raw: "returns (raw_noise_map R 1 1 octaves p l s 0) [[0]]"
    if "s \<noteq> 0" and "\<not> table_overflows octaves p l" for octaves p l s
    using returns_raw_noise_map [OF assms(1) that(1) _ _ that(2) origin_in_range, of 0]
    by (simp add: raw_value_spec_origin array_too_big_def)
  have norm: "normalize_noise_map [[0]] = Inr [[1 / 2]]"
    by (simp add: normalize_noise_map_def np_min_def np_max_def)
  have gen: "returns (generate_perlin_noise R 1 1 octaves p l s 0) [[1 / 2]]"
    if "s \<noteq> 0" and "\<not> table_overflows octaves p l" for octaves p l s
    unfolding generate_perlin_noise_def
    by (rule returns_bindM [where a = "[[0]]"], rule raw [OF that])
      (simp add: returns_def norm)
  have tiles: "terrain_tiles [[1 / 2]] = [[1]]"
    by (simp add: terrain_tiles_def classify_def)
  have pipe: "returns (pipeline R 1 1 octaves p l s 0) [[1]]"
    if "s \<noteq> 0" and "\<not> table_overflows octaves p l" for octaves p l s
    unfolding pipeline_def
    by (rule returns_bindM [where a = "[[1 / 2]]"], rule gen [OF that])
      (simp add: tiles returns_returnM)
  have one: "\<not> table_overflows 1 persistence lacunarity"
    by (simp add: table_overflows_def range_py_def float_overflows_def)
  have four: "\<not> table_overflows 4 0.01 2.0"
    by (rule table_in_range) simp_all
  have world: "returns (generate_world R 0 1) (1, [[1]])"
    unfolding generate_world_def
    by (rule returns_bindM [where a = "[[1]]"], rule pipe [OF _ four])
      (simp_all add: py_index_def returns_returnM)
  from raw [OF assms(2) one] gen [OF assms(2) one] pipe [OF assms(2) one] world show ?thesis
    by (simp add: returns_def np_min_def np_max_def)
qed

theorem single_cell_scenario_witness:
  "randint_in_range lcg \<and> (30::real) \<noteq> 0 \<and>
   fst (pipeline lcg 1 1 1 (1 / 2) 2 30 0 0) = Inr [[1]] \<and>
   fst (generate_world lcg 0 1 0) = Inr (1, [[1]])"
proof -
  have "(30::real) \<noteq> 0" by simp
  from single_cell_scenario [OF lcg_in_range this, of "1 / 2" 2 0] lcg_in_range
  show ?thesis by simp
qed

text \<open>
  C8, as the code has it. \<open>gradient\<close> does act on state shared by all calls: it
  re-seeds the module-level generator. The generator state after a call is the one left
  by seeding with \<open>random_seed + ix * 100000 + iy * 1000\<close> and drawing once, whatever the
  state before the call; the value returned does not depend on the state before the
  call.
\<close>

theorem gradient_overwrites_generator:
  "snd (gradient R ix iy x y random_seed g) =
     snd (randint_fn R (seed_fn R (random_seed + ix * 100000 + iy * 1000)) 0 7) \<and>
   fst (gradient R ix iy x y random_seed g) = fst (gradient R ix iy x y random_seed g')"
  by (simp add: gradient_def length_gradients Let_def split: prod.split sum.split)

text \<open>
  The claim as the specification states it has the call leave shared generator state
  untouched. With the stand-in generator in state \<open>0\<close>, the call leaves another state.
\<close>

theorem gradient_side_effect_counterexample:
  "snd (gradient lcg 0 0 0 0 0 0) \<noteq> 0"
  by (simp add: gradient_def lcg_def gradients_def py_index_def)

text \<open>
  C9. The classifier is total beyond \<open>[0, 1]\<close>: for every real value the code is one of
  \<open>0\<close>, \<open>1\<close>, \<open>2\<close>; every value below \<open>0.4\<close>, negative ones included, gives \<open>0\<close>, and
  every value from \<open>0.7\<close> on, those above \<open>1\<close> included, gives \<open>2\<close>.
\<close>

theorem classify_total:
  "classify v \<in> {0, 1, 2} \<and> (v < 0.4 \<longrightarrow> classify v = 0) \<and> (0.7 \<le> v \<longrightarrow> classify v = 2)"
  by (simp add: classify_def)

theorem classify_total_witness:
  "classify (- 3) = 0 \<and> classify 5 = 2"
  using classify_total [of "- 3"] classify_total [of 5] by simp

text \<open>
  C10, as the code has it. Zero at lattice points: with a generator that honours the
  contract of \<open>randint\<close>, an octave evaluated at a sample point with integer coordinates
  is exactly \<open>0\<close>, for every seed. For every seed, octave count, persistence,
  lacunarity and non-zero scale for which the frequency and amplitude table is built
  without overflow, the pixel \<open>(0, 0)\<close> is assigned exactly \<open>0\<close>; and where no sample
  coordinate of the grid overflows either, the raw field is returned with \<open>0\<close> in its
  cell \<open>(0, 0)\<close> (for an array within numpy's size limit).
\<close>

theorem zero_at_lattice_points:
  assumes "randint_in_range R"
  shows "(sample_x \<in> \<int> \<and> sample_y \<in> \<int> \<longrightarrow>
      fst (octave_value R (Finite sample_x) (Finite sample_y) seed g) = Inr 0) \<and>
    (scale \<noteq> 0 \<and> fst (amplitudes_config octaves persistence lacunarity g) = Inr config \<longrightarrow>
      fst (pixel_body R config octaves scale seed 0 0 noise_map g) =
        Inr (noise_map[0 := (noise_map ! 0)[0 := 0]])) \<and>
    (0 < width \<and> 0 < height \<and> scale \<noteq> 0 \<and> \<not> array_too_big height width \<and>
      \<not> table_overflows octaves persistence lacunarity \<and>
      \<not> samples_overflow width height octaves lacunarity scale \<longrightarrow>
      (\<exists>field.
         fst (raw_noise_map R width height octaves persistence lacunarity scale seed g) =
           Inr field \<and>
         field ! 0 ! 0 = 0))"
proof (intro conjI impI)
  assume "sample_x \<in> \<int> \<and> sample_y \<in> \<int>"
  then have "octaveValue R sample_x sample_y seed = 0"
    by (simp add: octaveValue_lattice)
  with returns_octave_value [OF assms, of sample_x sample_y seed]
  show "fst (octave_value R (Finite sample_x) (Finite sample_y) seed g) = Inr 0"
    by (simp add: returns_def)
next
  assume built: "scale \<noteq> 0 \<and>
    fst (amplitudes_config octaves persistence lacunarity g) = Inr config"
  then have config: "config = config_table octaves persistence lacunarity"
    by (simp add: amplitudes_config_result split: if_splits)
  from built have scale: "scale \<noteq> 0" ..
  have "returns (pixel_body R config octaves scale seed 0 0 noise_map)
      (noise_map[0 := (noise_map ! 0)
         [0 := raw_value_spec R octaves persistence lacunarity scale seed 0 0]])"
    unfolding config
    by (rule returns_pixel_body [OF assms scale origin_in_range]) (simp_all add: range_py_def)
  then show "fst (pixel_body R config octaves scale seed 0 0 noise_map g) =
      Inr (noise_map[0 := (noise_map ! 0)[0 := 0]])"
    by (simp add: returns_def raw_value_spec_origin)
next
  assume dims: "0 < width \<and> 0 < height \<and> scale \<noteq> 0 \<and> \<not> array_too_big height width \<and>
    \<not> table_overflows octaves persistence lacunarity \<and>
    \<not> samples_overflow width height octaves lacunarity scale"
  let ?raw = "map (\<lambda>y. map (\<lambda>x. raw_value_spec R octaves persistence lacunarity scale seed x y)
    [0..<nat width]) [0..<nat height]"
  from dims have "fst (raw_noise_map R width height octaves persistence lacunarity scale seed g) =
      Inr ?raw"
    using returns_raw_noise_map [OF assms, of scale width height octaves persistence lacunarity seed]
    by (simp add: returns_def)
  moreover from dims have "?raw ! 0 ! 0 = 0"
    by (simp add: raw_value_spec_origin)
  ultimately show "\<exists>field.
      fst (raw_noise_map R width height octaves persistence lacunarity scale seed g) =
        Inr field \<and> field ! 0 ! 0 = 0"
    by blast
qed

theorem zero_at_lattice_points_witness:
  "randint_in_range lcg \<and> (2::real) \<in> \<int> \<and> (- 3::real) \<in> \<int> \<and>
   fst (octave_value lcg (Finite 2) (Finite (- 3)) 5 0) = Inr 0 \<and>
   fst (amplitudes_config 3 (1 / 2) 2 (0::int)) = Inr [(1, 1), (2, 1 / 2), (4, 1 / 4)] \<and>
   fst (pixel_body lcg [(1, 1), (2, 1 / 2), (4, 1 / 4)] 3 30 7 0 0 [[5]] 0) = Inr [[0]] \<and>
   \<not> array_too_big 2 2 \<and> \<not> table_overflows 3 (1 / 2) 2 \<and> \<not> samples_overflow 2 2 3 2 30 \<and>
   (\<exists>field. fst (raw_noise_map lcg 2 2 3 (1 / 2) 2 30 7 0) = Inr field \<and>
      field ! 0 ! 0 = 0)"
proof -
  note inst = zero_at_lattice_points [OF lcg_in_range]
  have table: "\<not> table_overflows 3 (1 / 2) 2"
    by (rule table_in_range) simp_all
  have samples: "\<not> samples_overflow 2 2 3 2 30"
    by (rule samples_in_range) simp_all
  have array: "\<not> array_too_big 2 2"
    by (rule small_array) simp_all
  have config: "fst (amplitudes_config 3 (1 / 2) 2 (0::int)) = Inr [(1, 1), (2, 1 / 2), (4, 1 / 4)]"
    by (simp add: amplitudes_config_result table config_table_def range_py_def upt_conv_Cons
        power2_eq_square)
  have "fst (octave_value lcg (Finite 2) (Finite (- 3)) 5 0) = Inr 0"
    using inst [where sample_x = 2 and sample_y = "- 3" and seed = 5 and g = 0] by simp
  moreover have "fst (pixel_body lcg [(1, 1), (2, 1 / 2), (4, 1 / 4)] 3 30 7 0 0 [[5]] 0) =
      Inr [[0]]"
    using inst [where scale = 30 and octaves = 3 and persistence = "1 / 2" and lacunarity = 2
        and g = 0 and config = "[(1, 1), (2, 1 / 2), (4, 1 / 4)]" and seed = 7
        and noise_map = "[[5]]"] config
    by simp
  moreover have "\<exists>field. fst (raw_noise_map lcg 2 2 3 (1 / 2) 2 30 7 0) = Inr field \<and>
      field ! 0 ! 0 = 0"
    using inst [where width = 2 and height = 2 and scale = 30 and octaves = 3
        and persistence = "1 / 2" and lacunarity = 2 and seed = 7 and g = 0] table samples
      array
    by simp
  ultimately show ?thesis
    using lcg_in_range table samples array config by simp
qed

text \<open>
  The claim as the specification states it covers every octave count and lacunarity.
  With 1025 octaves and lacunarity \<open>2.0\<close> on a one-by-one field, no raw value exists for
  the pixel \<open>(0, 0)\<close>: building the table raises.
\<close>

theorem zero_at_lattice_points_counterexample:
  "(30::real) \<noteq> 0 \<and> fst (raw_noise_map lcg 1 1 1025 (1 / 2) 2 30 0 0) = Inl OverflowError"
  by (simp add: raw_noise_map_table_overflow [OF _ _ small_array two_to_1024_overflows])

end
